theory Spec2Isabelle
  imports Complex_Main "HOL-Library.Sublist" "HOL-Library.AList"
begin

section \<open>Python text\<close>

text \<open>
  Python text (\<open>str\<close>) is modelled by \<open>string\<close>; a \<open>char\<close> stands for a code point
  below 256. The string methods the adapter calls are written out for such text.
\<close>

definition startswith :: "string \<Rightarrow> string \<Rightarrow> bool" where
  "startswith s p = (take (length p) s = p)"

definition isspace :: "char \<Rightarrow> bool" where
  \<comment> \<open>\<open>str.isspace\<close> on one code point below 256\<close>
  "isspace c =
     (let n = (of_char c :: nat)
      in (9 \<le> n \<and> n \<le> 13) \<or> (28 \<le> n \<and> n \<le> 32) \<or> n = 133 \<or> n = 160)"

definition strip_chars :: "(char \<Rightarrow> bool) \<Rightarrow> string \<Rightarrow> string" where
  "strip_chars P s = rev (dropWhile P (rev (dropWhile P s)))"

definition strip :: "string \<Rightarrow> string" where
  \<comment> \<open>\<open>s.strip()\<close>\<close>
  "strip s = strip_chars isspace s"

definition strip_dots :: "string \<Rightarrow> string" where
  \<comment> \<open>\<open>s.strip(".")\<close>\<close>
  "strip_dots s = strip_chars (\<lambda>c. c = CHR ''.'') s"

definition lower_char :: "char \<Rightarrow> char" where
  "lower_char c =
     (let n = (of_char c :: nat)
      in if (65 \<le> n \<and> n \<le> 90) \<or> (192 \<le> n \<and> n \<le> 222 \<and> n \<noteq> 215)
         then char_of (n + 32) else c)"

definition lower :: "string \<Rightarrow> string" where
  \<comment> \<open>\<open>s.lower()\<close>\<close>
  "lower s = map lower_char s"

definition quote :: "string \<Rightarrow> string" where
  \<comment> \<open>\<open>repr\<close> of a string without quotes or escapes in it\<close>
  "quote s = [CHR 0x27] @ s @ [CHR 0x27]"

section \<open>Exceptions\<close>

text \<open>
  An exception is its class and its description (\<open>str(e)\<close>). Every class below derives
  from \<open>Exception\<close>, so the handler \<open>except Exception\<close> of the streaming function
  catches each of them.
\<close>

datatype exn_kind =
    JSONDecodeError | KeyError | IndexError | TypeError | AttributeError
  | UnicodeDecodeError | RequestException | ValueError | NotImplementedError | OSError

datatype exn = Exn (kind: exn_kind) (str_exn: string)

section \<open>Decoded JSON values\<close>

text \<open>
  The objects \<open>json.loads\<close> returns. A float is represented by the real number it
  denotes; the adapter only tests it for zero, so a non-finite float (which Python
  takes as true) is any non-zero real. A \<open>dict\<close> is an association list with distinct
  keys, read with \<open>map_of\<close>.
\<close>

datatype json =
    JNull | JBool bool | JInt int | JFloat real | JStr string
  | JArr "json list" | JObj "(string \<times> json) list"

fun type_name :: "json \<Rightarrow> string" where
  "type_name JNull = ''NoneType''"
| "type_name (JBool b) = ''bool''"
| "type_name (JInt i) = ''int''"
| "type_name (JFloat r) = ''float''"
| "type_name (JStr s) = ''str''"
| "type_name (JArr xs) = ''list''"
| "type_name (JObj kvs) = ''dict''"

fun truthy :: "json \<Rightarrow> bool" where
  "truthy JNull = False"
| "truthy (JBool b) = b"
| "truthy (JInt i) = (i \<noteq> 0)"
| "truthy (JFloat r) = (r \<noteq> 0)"
| "truthy (JStr s) = (s \<noteq> [])"
| "truthy (JArr xs) = (xs \<noteq> [])"
| "truthy (JObj kvs) = (kvs \<noteq> [])"

definition not_subscriptable :: "json \<Rightarrow> exn" where
  "not_subscriptable v = Exn TypeError (quote (type_name v) @ '' object is not subscriptable'')"

fun getitem :: "json \<Rightarrow> string \<Rightarrow> exn + json" where
  \<comment> \<open>\<open>v[k]\<close> for a string key \<open>k\<close>\<close>
  "getitem (JObj kvs) k =
     (case map_of kvs k of Some v \<Rightarrow> Inr v | None \<Rightarrow> Inl (Exn KeyError (quote k)))"
| "getitem (JArr xs) k = Inl (Exn TypeError ''list indices must be integers or slices, not str'')"
| "getitem (JStr s) k = Inl (Exn TypeError (''string indices must be integers, not '' @ quote ''str''))"
| "getitem v k = Inl (not_subscriptable v)"

fun getitem0 :: "json \<Rightarrow> exn + json" where
  \<comment> \<open>\<open>v[0]\<close>; the keys of a decoded object are strings, so \<open>0\<close> is never one of them\<close>
  "getitem0 (JArr xs) =
     (case xs of [] \<Rightarrow> Inl (Exn IndexError ''list index out of range'') | x # _ \<Rightarrow> Inr x)"
| "getitem0 (JStr s) =
     (case s of [] \<Rightarrow> Inl (Exn IndexError ''string index out of range'') | c # _ \<Rightarrow> Inr (JStr [c]))"
| "getitem0 (JObj kvs) = Inl (Exn KeyError ''0'')"
| "getitem0 v = Inl (not_subscriptable v)"

fun dict_get :: "json \<Rightarrow> string \<Rightarrow> json \<Rightarrow> exn + json" where
  \<comment> \<open>\<open>v.get(k, d)\<close>\<close>
  "dict_get (JObj kvs) k d = Inr (case map_of kvs k of Some v \<Rightarrow> v | None \<Rightarrow> d)"
| "dict_get v k d =
     Inl (Exn AttributeError (quote (type_name v) @ '' object has no attribute '' @ quote ''get''))"

fun str_iadd :: "string \<Rightarrow> json \<Rightarrow> exn + string" where
  \<comment> \<open>\<open>s += v\<close> for a string \<open>s\<close>\<close>
  "str_iadd s (JStr d) = Inr (s @ d)"
| "str_iadd s v =
     Inl (Exn TypeError (''can only concatenate str (not '' @ [CHR 0x22] @ type_name v @ [CHR 0x22] @ '') to str''))"

section \<open>A JSON decoder\<close>

text \<open>
  \<open>json.loads\<close> belongs to Python's library, not to the adapter: the streaming
  function below takes it as the parameter \<open>loads\<close>, and every general theorem holds
  for any decoder. \<open>json_loads\<close> follows the library's decoder on the fragment of JSON
  made of objects, arrays, strings with the two-character escapes, \<open>null\<close>, \<open>true\<close>,
  \<open>false\<close> and integer literals; it is used to run the function on concrete frames.
  Outside that fragment (a number with a fraction or an exponent, \<open>NaN\<close>, \<open>Infinity\<close>,
  a four-digit unicode escape) it reports a decode error, which the library does not;
  an integer literal is read whatever its length, where the library refuses the very
  long ones. A key that occurs twice in an object keeps its place and takes the later
  value, as in a \<open>dict\<close>. The recursion is bounded by a counter that starts at twice the
  length of the text plus two; running out of it counts as a decode error.
\<close>

definition json_ws :: "char \<Rightarrow> bool" where
  "json_ws c = (c = CHR '' '' \<or> c = CHR 0x09 \<or> c = CHR 0x0A \<or> c = CHR 0x0D)"

definition skip_ws :: "string \<Rightarrow> string" where
  "skip_ws s = dropWhile json_ws s"

definition backslash :: "char \<Rightarrow> char option" where
  "backslash c =
     (if c = CHR 0x22 then Some (CHR 0x22)
      else if c = CHR 0x5C then Some (CHR 0x5C)
      else if c = CHR ''/'' then Some (CHR ''/'')
      else if c = CHR ''b'' then Some (CHR 0x08)
      else if c = CHR ''f'' then Some (CHR 0x0C)
      else if c = CHR ''n'' then Some (CHR 0x0A)
      else if c = CHR ''r'' then Some (CHR 0x0D)
      else if c = CHR ''t'' then Some (CHR 0x09)
      else None)"

fun scanstring :: "string \<Rightarrow> (string \<times> string) option" where
  "scanstring [] = None"
| "scanstring (c # cs) =
     (if c = CHR 0x22 then Some ([], cs)
      else if c = CHR 0x5C then
        (case cs of
           [] \<Rightarrow> None
         | e # cs' \<Rightarrow>
             (case backslash e of
                None \<Rightarrow> None
              | Some ch \<Rightarrow> map_option (\<lambda>(t, r). (ch # t, r)) (scanstring cs')))
      else if (of_char c :: nat) < 32 then None
      else map_option (\<lambda>(t, r). (c # t, r)) (scanstring cs))"

definition is_digit :: "char \<Rightarrow> bool" where
  "is_digit c = (48 \<le> (of_char c :: nat) \<and> (of_char c :: nat) \<le> 57)"

definition digits_value :: "string \<Rightarrow> int" where
  "digits_value ds = foldl (\<lambda>a c. 10 * a + (of_char c - 48)) 0 ds"

definition scan_digits :: "string \<Rightarrow> (int \<times> string) option" where
  "scan_digits s =
     (case s of
        [] \<Rightarrow> None
      | c # cs \<Rightarrow>
          if c = CHR ''0'' then Some (0, cs)
          else if is_digit c then Some (digits_value (takeWhile is_digit s), dropWhile is_digit s)
          else None)"

definition scan_int :: "string \<Rightarrow> (json \<times> string) option" where
  "scan_int s =
     (let (neg, t) = (case s of c # cs \<Rightarrow> if c = CHR ''-'' then (True, cs) else (False, s) | [] \<Rightarrow> (False, s))
      in case scan_digits t of
           None \<Rightarrow> None
         | Some (i, r) \<Rightarrow>
             (case r of
                [] \<Rightarrow> Some (JInt (if neg then - i else i), r)
              | d # _ \<Rightarrow>
                  if d = CHR ''.'' \<or> d = CHR ''e'' \<or> d = CHR ''E'' then None
                  else Some (JInt (if neg then - i else i), r)))"

fun parse_value :: "nat \<Rightarrow> string \<Rightarrow> (json \<times> string) option"
and parse_array :: "nat \<Rightarrow> json list \<Rightarrow> string \<Rightarrow> (json \<times> string) option"
and parse_object :: "nat \<Rightarrow> (string \<times> json) list \<Rightarrow> string \<Rightarrow> (json \<times> string) option" where
  "parse_value 0 s = None"
| "parse_value (Suc n) s =
     (case s of
        [] \<Rightarrow> None
      | c # cs \<Rightarrow>
          if c = CHR 0x22 then map_option (\<lambda>(t, r). (JStr t, r)) (scanstring cs)
          else if c = CHR ''{'' then
            (case skip_ws cs of
               [] \<Rightarrow> None
             | d # ds \<Rightarrow> if d = CHR ''}'' then Some (JObj [], ds) else parse_object n [] (d # ds))
          else if c = CHR ''['' then
            (case skip_ws cs of
               [] \<Rightarrow> None
             | d # ds \<Rightarrow> if d = CHR '']'' then Some (JArr [], ds) else parse_array n [] (d # ds))
          else if startswith s ''null'' then Some (JNull, drop 4 s)
          else if startswith s ''true'' then Some (JBool True, drop 4 s)
          else if startswith s ''false'' then Some (JBool False, drop 5 s)
          else scan_int s)"
| "parse_array 0 acc s = None"
| "parse_array (Suc n) acc s =
     (case parse_value n s of
        None \<Rightarrow> None
      | Some (v, r) \<Rightarrow>
          (case skip_ws r of
             [] \<Rightarrow> None
           | d # ds \<Rightarrow>
               if d = CHR '']'' then Some (JArr (acc @ [v]), ds)
               else if d = CHR '','' then parse_array n (acc @ [v]) (skip_ws ds)
               else None))"
| "parse_object 0 acc s = None"
| "parse_object (Suc n) acc s =
     (case s of
        [] \<Rightarrow> None
      | q # cs \<Rightarrow>
          if q \<noteq> CHR 0x22 then None
          else
            (case scanstring cs of
               None \<Rightarrow> None
             | Some (key, r) \<Rightarrow>
                 (case skip_ws r of
                    [] \<Rightarrow> None
                  | c # r' \<Rightarrow>
                      if c \<noteq> CHR '':'' then None
                      else
                        (case parse_value n (skip_ws r') of
                           None \<Rightarrow> None
                         | Some (v, r'') \<Rightarrow>
                             (case skip_ws r'' of
                                [] \<Rightarrow> None
                              | d # ds \<Rightarrow>
                                  if d = CHR ''}'' then Some (JObj (AList.update key v acc), ds)
                                  else if d = CHR '','' then
                                    parse_object n (AList.update key v acc) (skip_ws ds)
                                  else None)))))"

definition json_loads :: "string \<Rightarrow> exn + json" where
  "json_loads s =
     (case parse_value (2 * length s + 2) (skip_ws s) of
        None \<Rightarrow> Inl (Exn JSONDecodeError ''Expecting value'')
      | Some (v, r) \<Rightarrow>
          if skip_ws r = [] then Inr v else Inl (Exn JSONDecodeError ''Extra data''))"

section \<open>Messages\<close>

record message =
  role :: string
  content :: string

record inputs =
  messages :: "message list"

section \<open>The streaming completion client\<close>

definition NOVITA_API_BASE_URL :: string where
  "NOVITA_API_BASE_URL = ''https://api.novita.ai/v3/openai''"

record request =
  req_url :: string
  req_headers :: "(string \<times> string) list"
  req_model :: string
  req_messages :: "message list"
  req_stream :: bool
  req_max_tokens :: nat

text \<open>
  A line of the response as \<open>iter_lines\<close> delivers it: bytes that decode as UTF-8 to a
  text (the empty line to the empty text), or non-empty bytes that do not decode, with
  the description of the \<open>UnicodeDecodeError\<close>.
\<close>

datatype frame = Text string | Undecodable string

text \<open>
  A response: what \<open>raise_for_status\<close> raises (nothing for a status below 400), the
  lines \<open>iter_lines\<close> delivers, and the failure it raises after them when the
  connection breaks before the end of the body.
\<close>

record response =
  http_error :: "exn option"
  body_lines :: "frame list"
  body_error :: "exn option"

record stream_state =
  partial_message :: string
  yielded :: "string list"

definition loop_body ::
  "(string \<Rightarrow> exn + json) \<Rightarrow> (string \<Rightarrow> string) \<Rightarrow> stream_state \<Rightarrow> frame \<Rightarrow> exn + stream_state" where
  \<comment> \<open>one round of \<open>for line in response.iter_lines()\<close>; \<open>Inl\<close> is an exception
      that leaves the loop\<close>
  "loop_body loads postprocess st l =
     (case l of
        Undecodable d \<Rightarrow> Inl (Exn UnicodeDecodeError d)
      | Text line \<Rightarrow>
          if line \<noteq> [] \<and> startswith line ''data:'' \<and> line \<noteq> ''data: [DONE]'' then
            (let json_str = strip (drop 5 line) in
             case loads json_str of
               Inl e \<Rightarrow> if kind e = JSONDecodeError then Inr st else Inl e
             | Inr chunk \<Rightarrow>
                 (case getitem chunk ''choices'' of
                    Inl e \<Rightarrow> Inl e
                  | Inr choices \<Rightarrow>
                      if truthy choices then
                        (case getitem0 choices of
                           Inl e \<Rightarrow> Inl e
                         | Inr choice \<Rightarrow>
                        (case getitem choice ''delta'' of
                           Inl e \<Rightarrow> Inl e
                         | Inr d \<Rightarrow>
                        (case dict_get d ''content'' (JStr []) of
                           Inl e \<Rightarrow> Inl e
                         | Inr delta \<Rightarrow>
                        (case str_iadd (partial_message st) delta of
                           Inl e \<Rightarrow> Inl e
                         | Inr pm \<Rightarrow>
                             Inr \<lparr>partial_message = pm,
                                  yielded = yielded st @ [postprocess pm]\<rparr>))))
                      else Inr st))
          else Inr st)"

fun for_lines ::
  "(string \<Rightarrow> exn + json) \<Rightarrow> (string \<Rightarrow> string) \<Rightarrow> stream_state \<Rightarrow> frame list
     \<Rightarrow> stream_state \<times> exn option" where
  "for_lines loads postprocess st [] = (st, None)"
| "for_lines loads postprocess st (l # ls) =
     (case loop_body loads postprocess st l of
        Inl e \<Rightarrow> (st, Some e)
      | Inr st' \<Rightarrow> for_lines loads postprocess st' ls)"

definition error_message :: "exn \<Rightarrow> string" where
  "error_message e = ''Error: '' @ str_exn e"

definition read_stream ::
  "(string \<Rightarrow> exn + json) \<Rightarrow> (string \<Rightarrow> string) \<Rightarrow> response \<Rightarrow> stream_state \<times> exn option" where
  \<comment> \<open>the \<open>try\<close> block after the request returned: the values yielded and the
      exception that ends the block, if any\<close>
  "read_stream loads postprocess r =
     (case http_error r of
        Some e \<Rightarrow> (\<lparr>partial_message = [], yielded = []\<rparr>, Some e)
      | None \<Rightarrow>
          (case for_lines loads postprocess \<lparr>partial_message = [], yielded = []\<rparr> (body_lines r) of
             (st, Some e) \<Rightarrow> (st, Some e)
           | (st, None) \<Rightarrow> (st, body_error r)))"

definition fn ::
  "(request \<Rightarrow> exn + response) \<Rightarrow> (string \<Rightarrow> exn + json) \<Rightarrow>
   string \<Rightarrow> ('m \<Rightarrow> 'h \<Rightarrow> string option \<Rightarrow> inputs) \<Rightarrow> (string \<Rightarrow> string) \<Rightarrow> string \<Rightarrow> string option \<Rightarrow>
   'm \<Rightarrow> 'h \<Rightarrow> string list" where
  \<comment> \<open>\<open>get_fn(model_name, preprocess, postprocess, api_key, system_prompt)(message, history)\<close>:
      the values the generator yields, in order. \<open>post\<close> is the server behind
      \<open>requests.post\<close>, \<open>loads\<close> is \<open>json.loads\<close>.\<close>
  "fn post loads model_name preprocess postprocess api_key system_prompt message history =
     (let inputs = preprocess message history system_prompt;
          headers = [(''Content-Type'', ''application/json''),
                     (''Authorization'', ''Bearer '' @ api_key)]
      in case post \<lparr>req_url = NOVITA_API_BASE_URL @ ''/chat/completions'',
                    req_headers = headers,
                    req_model = model_name,
                    req_messages = messages inputs,
                    req_stream = True,
                    req_max_tokens = 1000\<rparr> of
           Inl e \<Rightarrow> [error_message e]
         | Inr r \<Rightarrow>
             (case read_stream loads postprocess r of
                (st, Some e) \<Rightarrow> yielded st @ [error_message e]
              | (st, None) \<Rightarrow> yielded st))"

section \<open>The chat pipeline\<close>

definition py_true :: "string option \<Rightarrow> bool" where
  \<comment> \<open>the truth value of an optional string: neither \<open>None\<close> nor empty\<close>
  "py_true s = (case s of None \<Rightarrow> False | Some t \<Rightarrow> t \<noteq> [])"

fun history_messages :: "('v \<Rightarrow> string) \<Rightarrow> ('v \<times> 'v option) list \<Rightarrow> message list" where
  \<comment> \<open>the loop over \<open>history\<close> in \<open>preprocess\<close>\<close>
  "history_messages str [] = []"
| "history_messages str ((user_msg, assistant_msg) # history) =
     \<lparr>role = ''user'', content = str user_msg\<rparr> #
     (case assistant_msg of
        None \<Rightarrow> []
      | Some a \<Rightarrow> [\<lparr>role = ''assistant'', content = str a\<rparr>]) @
     history_messages str history"

definition preprocess ::
  "('v \<Rightarrow> string) \<Rightarrow> 'v \<Rightarrow> ('v \<times> 'v option) list \<Rightarrow> string option \<Rightarrow> inputs" where
  \<comment> \<open>\<open>str\<close> is Python's builtin of that name on the values the widget passes\<close>
  "preprocess str message history system_prompt =
     \<lparr>messages =
        (if py_true system_prompt then [\<lparr>role = ''system'', content = the system_prompt\<rparr>] else []) @
        history_messages str history @
        [\<lparr>role = ''user'', content = str message\<rparr>]\<rparr>"

definition postprocess :: "string \<Rightarrow> string" where
  "postprocess x = x"

definition get_pipeline :: "string \<Rightarrow> string" where
  "get_pipeline model_name = ''chat''"

definition get_interface_args ::
  "('v \<Rightarrow> string) \<Rightarrow> string \<Rightarrow> string option \<Rightarrow>
   exn + (('v \<Rightarrow> ('v \<times> 'v option) list \<Rightarrow> string option \<Rightarrow> inputs) \<times> (string \<Rightarrow> string))" where
  \<comment> \<open>the two callables of the result; \<open>inputs\<close> and \<open>outputs\<close> are \<open>None\<close>\<close>
  "get_interface_args str pipeline system_prompt =
     (if pipeline = ''chat'' then Inr (preprocess str, postprocess)
      else Inl (Exn ValueError (''Unsupported pipeline type: '' @ pipeline)))"

section \<open>Registration\<close>

definition SYSTEM_PROMPTS :: "string \<Rightarrow> string option" where
  "SYSTEM_PROMPTS = map_of
     [(''default'', ''You are a helpful, harmless, and honest AI assistant.''),
      (''coder'',
       ''You are an expert web developer specializing in creating clean, efficient, and modern web applications.'' @ [CHR 0x0A] @
       ''Your task is to write complete, self-contained HTML files that include all necessary CSS and JavaScript.'' @ [CHR 0x0A] @
       ''Focus on:'' @ [CHR 0x0A] @
       ''- Writing clear, maintainable code'' @ [CHR 0x0A] @
       ''- Following best practices'' @ [CHR 0x0A] @
       ''- Creating responsive designs'' @ [CHR 0x0A] @
       ''- Adding appropriate styling and interactivity'' @ [CHR 0x0A] @
       ''Return only the complete HTML code without any additional explanation.'')]"

definition registry ::
  "(request \<Rightarrow> exn + response) \<Rightarrow> (string \<Rightarrow> exn + json) \<Rightarrow> ('v \<Rightarrow> string) \<Rightarrow>
   (string \<Rightarrow> string option) \<Rightarrow> string \<Rightarrow> string option \<Rightarrow> bool \<Rightarrow>
   exn + ('v \<Rightarrow> ('v \<times> 'v option) list \<Rightarrow> string list)" where
  \<comment> \<open>\<open>environ\<close> is \<open>os.environ\<close>; the chat interface returned is identified with the
      function it wraps\<close>
  "registry post loads str environ name token coder =
     (let api_key = (if py_true token then token else environ ''NOVITA_API_KEY'')
      in if \<not> py_true api_key then
           Inl (Exn ValueError ''NOVITA_API_KEY environment variable is not set.'')
         else
           (let system_prompt = (if coder then SYSTEM_PROMPTS ''coder'' else SYSTEM_PROMPTS ''default'');
                pipeline = get_pipeline name
            in case get_interface_args str pipeline system_prompt of
                 Inl e \<Rightarrow> Inl e
               | Inr (pre, postp) \<Rightarrow>
                   Inr (fn post loads name pre postp (the api_key) system_prompt)))"

section \<open>The multimodal input normalizer\<close>

definition b64_alphabet :: string where
  "b64_alphabet = ''ABCDEFGHIJKLMNOPQRSTUVWXYZabcdefghijklmnopqrstuvwxyz0123456789+/''"

definition b64_char :: "nat \<Rightarrow> char" where
  "b64_char n = b64_alphabet ! (n mod 64)"

fun b64encode :: "string \<Rightarrow> string" where
  \<comment> \<open>\<open>base64.b64encode(data).decode('utf-8')\<close>, a \<open>char\<close> of \<open>data\<close> being a byte\<close>
  "b64encode (a # b # c # rest) =
     (let n = of_char a * 65536 + of_char b * 256 + of_char c
      in [b64_char (n div 262144), b64_char (n div 4096), b64_char (n div 64), b64_char n])
     @ b64encode rest"
| "b64encode [a, b] =
     (let n = of_char a * 65536 + of_char b * 256
      in [b64_char (n div 262144), b64_char (n div 4096), b64_char (n div 64), CHR ''=''])"
| "b64encode [a] =
     (let n = of_char a * 65536
      in [b64_char (n div 262144), b64_char (n div 4096), CHR ''='', CHR ''=''])"
| "b64encode [] = []"

definition get_image_base64 :: "(string \<Rightarrow> exn + string) \<Rightarrow> string \<Rightarrow> string \<Rightarrow> exn + string" where
  \<comment> \<open>\<open>read_file\<close> opens a path and reads its bytes, or raises\<close>
  "get_image_base64 read_file url ext =
     (case read_file url of
        Inl e \<Rightarrow> Inl e
      | Inr data \<Rightarrow> Inr (''data:image/'' @ ext @ '';base64,'' @ b64encode data))"

definition rfind :: "string \<Rightarrow> char \<Rightarrow> int" where
  \<comment> \<open>\<open>p.rfind(c)\<close>: the last index of \<open>c\<close>, or \<open>-1\<close>\<close>
  "rfind p c =
     (if c \<in> set p then int (length p) - 1 - int (length (takeWhile (\<lambda>x. x \<noteq> c) (rev p)))
      else - 1)"

definition splitext :: "string \<Rightarrow> string \<times> string" where
  \<comment> \<open>\<open>os.path.splitext\<close> of \<open>posixpath\<close>: the extension starts at the last dot of the
      last component, unless only dots precede it there\<close>
  "splitext p =
     (let sepIndex = rfind p (CHR ''/'');
          dotIndex = rfind p (CHR ''.'')
      in if dotIndex > sepIndex \<and>
            dropWhile (\<lambda>c. c = CHR ''.'') (drop (nat (sepIndex + 1)) (take (nat dotIndex) p)) \<noteq> []
         then (take (nat dotIndex) p, drop (nat dotIndex) p)
         else (p, []))"

text \<open>
  The argument of \<open>handle_user_msg\<close>: a \<open>str\<close>, the \<open>dict\<close> of the multimodal textbox
  with its keys \<open>"text"\<close> and \<open>"files"\<close> (the latter a list of paths or \<open>None\<close>), or a
  value of any other type.
\<close>

record multimodal =
  msg_text :: string
  msg_files :: "string list option"

datatype user_msg = MsgStr string | MsgDict multimodal | MsgOther

datatype block = TextBlock string | ImageUrlBlock string

datatype content_value = Plain string | Blocks "block list"

definition handle_user_msg :: "(string \<Rightarrow> exn + string) \<Rightarrow> user_msg \<Rightarrow> exn + content_value" where
  "handle_user_msg read_file message =
     (case message of
        MsgStr s \<Rightarrow> Inr (Plain s)
      | MsgDict m \<Rightarrow>
          if msg_files m \<noteq> None \<and> length (the (msg_files m)) > 0 then
            (let ext = strip_dots (snd (splitext (last (the (msg_files m)))))
             in if lower ext \<in> set [''png'', ''jpg'', ''jpeg'', ''gif''] then
                  (case get_image_base64 read_file (last (the (msg_files m))) ext of
                     Inl e \<Rightarrow> Inl e
                   | Inr encoded_str \<Rightarrow> Inr (Blocks [TextBlock (msg_text m), ImageUrlBlock encoded_str]))
                else Inl (Exn NotImplementedError (''Not supported file type '' @ ext)))
          else Inr (Plain (msg_text m))
      | MsgOther \<Rightarrow> Inl (Exn NotImplementedError []))"

section \<open>Vocabulary of the properties\<close>

text \<open>
  A server that answers every request with the response \<open>r\<close>.
\<close>

definition serve :: "response \<Rightarrow> request \<Rightarrow> exn + response" where
  "serve r req = Inr r"

text \<open>
  The kinds of line the properties speak about. A data frame is a line the loop hands to
  the decoder; its payload is the text decoded. A valid frame decodes to a chunk of the
  shape \<open>{"choices": [{"delta": {"content": t}}, ...]}\<close> with a text \<open>t\<close>; a malformed
  frame is one the decoder rejects with a \<open>JSONDecodeError\<close>.
\<close>

definition payload :: "string \<Rightarrow> string" where
  "payload line = strip (drop 5 line)"

definition data_frame :: "string \<Rightarrow> bool" where
  "data_frame line = (startswith line ''data:'' \<and> line \<noteq> ''data: [DONE]'')"

fun chunk_text :: "json \<Rightarrow> string option" where
  "chunk_text (JObj kvs) =
     (case map_of kvs ''choices'' of
        Some (JArr (JObj c # cs)) \<Rightarrow>
          (case map_of c ''delta'' of
             Some (JObj d) \<Rightarrow> (case map_of d ''content'' of Some (JStr t) \<Rightarrow> Some t | _ \<Rightarrow> None)
           | _ \<Rightarrow> None)
      | _ \<Rightarrow> None)"
| "chunk_text v = None"

definition valid_frame :: "(string \<Rightarrow> exn + json) \<Rightarrow> string \<Rightarrow> string \<Rightarrow> bool" where
  "valid_frame loads line t =
     (data_frame line \<and>
      (case loads (payload line) of Inl e \<Rightarrow> False | Inr chunk \<Rightarrow> chunk_text chunk = Some t))"

definition malformed_frame :: "(string \<Rightarrow> exn + json) \<Rightarrow> string \<Rightarrow> bool" where
  "malformed_frame loads line =
     (data_frame line \<and>
      (case loads (payload line) of Inl e \<Rightarrow> kind e = JSONDecodeError | Inr chunk \<Rightarrow> False))"

text \<open>The accumulator after each of the deltas \<open>ds\<close>, starting from \<open>acc\<close>.\<close>

fun snapshots :: "string \<Rightarrow> string list \<Rightarrow> string list" where
  "snapshots acc [] = []"
| "snapshots acc (d # ds) = (acc @ d) # snapshots (acc @ d) ds"

text \<open>Every value of a list but the first has its predecessor as a prefix.\<close>

fun each_extends_previous :: "string list \<Rightarrow> bool" where
  "each_extends_previous [] = True"
| "each_extends_previous [x] = True"
| "each_extends_previous (x # y # zs) = (prefix x y \<and> each_extends_previous (y # zs))"


text \<open>Once a value was yielded, the last one is the accumulator as \<open>pp\<close> returns it.\<close>

definition tracks :: "(string \<Rightarrow> string) \<Rightarrow> stream_state \<Rightarrow> bool" where
  "tracks pp st = (yielded st \<noteq> [] \<longrightarrow> last (yielded st) = pp (partial_message st))"

text \<open>A file store holding one file of three bytes, to run the normalizer on.\<close>

definition disk :: "string \<Rightarrow> exn + string" where
  "disk path = (if path = ''/tmp/cat.PNG'' then Inr ''Man''
                else Inl (Exn OSError (''No such file or directory: '' @ quote path)))"

section \<open>The loop, line by line\<close>

lemma data_frame_nonempty: "data_frame line \<Longrightarrow> line \<noteq> []"
  by (auto simp: data_frame_def startswith_def)

lemma for_lines_append:
  "for_lines loads pp st (xs @ ys) =
     (case for_lines loads pp st xs of
        (st', Some e) \<Rightarrow> (st', Some e)
      | (st', None) \<Rightarrow> for_lines loads pp st' ys)"
  by (induction xs arbitrary: st) (auto split: sum.splits)

lemma loop_body_done: "loop_body loads pp st (Text ''data: [DONE]'') = Inr st"
  by (simp add: loop_body_def)

lemma chunk_text_SomeD:
  "chunk_text chunk = Some t \<Longrightarrow>
   \<exists>kvs c cs d. chunk = JObj kvs \<and> map_of kvs ''choices'' = Some (JArr (JObj c # cs)) \<and>
     map_of c ''delta'' = Some (JObj d) \<and> map_of d ''content'' = Some (JStr t)"
  by (cases chunk) (auto split: option.splits json.splits list.splits)

lemma loop_body_valid:
  assumes "valid_frame loads line t"
  shows "loop_body loads pp st (Text line) =
           Inr \<lparr>partial_message = partial_message st @ t,
                yielded = yielded st @ [pp (partial_message st @ t)]\<rparr>"
proof -
  from assms have df: "data_frame line" and ne: "line \<noteq> []"
    by (auto simp: valid_frame_def data_frame_nonempty)
  from assms obtain chunk where ch: "loads (strip (drop 5 line)) = Inr chunk" "chunk_text chunk = Some t"
    by (auto simp: valid_frame_def payload_def split: sum.splits)
  from chunk_text_SomeD[OF ch(2)] obtain kvs c cs d where
    "chunk = JObj kvs" "map_of kvs ''choices'' = Some (JArr (JObj c # cs))"
    "map_of c ''delta'' = Some (JObj d)" "map_of d ''content'' = Some (JStr t)"
    by blast
  with df ne ch(1) show ?thesis
    by (simp add: loop_body_def data_frame_def)
qed

lemma loop_body_malformed:
  assumes "malformed_frame loads line"
  shows "loop_body loads pp st (Text line) = Inr st"
  using assms
  by (auto simp: malformed_frame_def loop_body_def payload_def data_frame_def split: sum.splits)

lemma fn_serve:
  "fn (serve r) loads model_name pre pp api_key system_prompt message history =
     (case read_stream loads pp r of
        (st, Some e) \<Rightarrow> yielded st @ [error_message e]
      | (st, None) \<Rightarrow> yielded st)"
  by (simp add: fn_def serve_def)

lemma for_lines_valid:
  "list_all2 (valid_frame loads) ls ds \<Longrightarrow>
   for_lines loads pp st (map Text ls) =
     (\<lparr>partial_message = partial_message st @ concat ds,
       yielded = yielded st @ map pp (snapshots (partial_message st) ds)\<rparr>, None)"
proof (induction ls ds arbitrary: st rule: list_all2_induct)
  case Nil
  then show ?case by simp
next
  case (Cons l ls d ds)
  then show ?case by (simp add: loop_body_valid)
qed

lemma snapshots_length: "length (snapshots acc ds) = length ds"
  by (induction ds arbitrary: acc) auto

lemma snapshots_nth: "i < length ds \<Longrightarrow> snapshots acc ds ! i = acc @ concat (take (Suc i) ds)"
proof (induction ds arbitrary: acc i)
  case Nil
  then show ?case by simp
next
  case (Cons d ds)
  then show ?case by (cases i) auto
qed

lemma valid_Hi: \<open>valid_frame json_loads ''data: {"choices":[{"delta":{"content":"Hi"}}]}'' ''Hi''\<close>
  by code_simp

lemma valid_there: \<open>valid_frame json_loads ''data: {"choices":[{"delta":{"content":" there"}}]}'' '' there''\<close>
  by code_simp

lemma fn_valid_frames:
  assumes "list_all2 (valid_frame loads) ls ds" and "http_error r = None"
    and "body_lines r = map Text ls @ [Text ''data: [DONE]'']" and "body_error r = None"
  shows "fn (serve r) loads model_name prep pp api_key system_prompt message history =
           map pp (snapshots [] ds)"
  using assms
  by (simp add: fn_serve read_stream_def for_lines_append for_lines_valid loop_body_done)

lemma pre_Hi:
  \<open>for_lines json_loads postprocess \<lparr>partial_message = [], yielded = []\<rparr>
     [Text ''data: {"choices":[{"delta":{"content":"Hi"}}]}'']
     = (\<lparr>partial_message = ''Hi'', yielded = [''Hi'']\<rparr>, None)\<close>
  by code_simp

lemma fn_after_prefix:
  assumes "http_error r = None" and "body_lines r = pre @ l # rest"
    and "for_lines loads pp \<lparr>partial_message = [], yielded = []\<rparr> pre = (st, None)"
  shows "fn (serve r) loads model_name prep pp api_key system_prompt message history =
           (case loop_body loads pp st l of
              Inl e \<Rightarrow> yielded st @ [''Error: '' @ str_exn e]
            | Inr st' \<Rightarrow>
                (case for_lines loads pp st' rest of
                   (st'', Some e) \<Rightarrow> yielded st'' @ [''Error: '' @ str_exn e]
                 | (st'', None) \<Rightarrow>
                     (case body_error r of
                        None \<Rightarrow> yielded st''
                      | Some e \<Rightarrow> yielded st'' @ [''Error: '' @ str_exn e])))"
  using assms
  by (simp add: fn_serve read_stream_def for_lines_append error_message_def
           split: sum.splits prod.splits option.splits)

section \<open>Invariants of the accumulator\<close>

lemma each_extends_previous_snoc:
  "each_extends_previous (ys @ [x]) \<longleftrightarrow>
     each_extends_previous ys \<and> (ys \<noteq> [] \<longrightarrow> prefix (last ys) x)"
  by (induction ys rule: each_extends_previous.induct) auto

lemma str_iadd_InrD: "str_iadd s v = Inr pm \<Longrightarrow> \<exists>d. v = JStr d \<and> pm = s @ d"
  by (cases v) auto

lemma loop_body_InrD:
  assumes "loop_body loads pp st l = Inr st'"
  shows "st' = st \<or>
         (\<exists>d. st' = \<lparr>partial_message = partial_message st @ d,
                      yielded = yielded st @ [pp (partial_message st @ d)]\<rparr>)"
  using assms
  by (auto simp: loop_body_def Let_def split: frame.splits if_splits sum.splits dest!: str_iadd_InrD)

lemma loop_body_tracks:
  "loop_body loads pp st l = Inr st' \<Longrightarrow> tracks pp st \<Longrightarrow> tracks pp st'"
  by (drule loop_body_InrD) (auto simp: tracks_def)

lemma for_lines_tracks:
  "for_lines loads pp st ls = (st', x) \<Longrightarrow> tracks pp st \<Longrightarrow> tracks pp st'"
proof (induction ls arbitrary: st)
  case Nil
  then show ?case by simp
next
  case (Cons l ls)
  then show ?case
    by (auto split: sum.splits dest: loop_body_tracks)
qed

lemma loop_body_chain:
  assumes "loop_body loads postprocess st l = Inr st'" and "tracks postprocess st"
    and "each_extends_previous (yielded st)"
  shows "each_extends_previous (yielded st')"
  using loop_body_InrD[OF assms(1)] assms(2,3)
  by (auto simp: tracks_def postprocess_def each_extends_previous_snoc)

lemma for_lines_chain:
  "for_lines loads postprocess st ls = (st', x) \<Longrightarrow> tracks postprocess st \<Longrightarrow>
   each_extends_previous (yielded st) \<Longrightarrow> each_extends_previous (yielded st')"
proof (induction ls arbitrary: st)
  case Nil
  then show ?case by simp
next
  case (Cons l ls)
  show ?case
  proof (cases "loop_body loads postprocess st l")
    case (Inl e)
    with Cons.prems show ?thesis by simp
  next
    case (Inr st1)
    with Cons.prems have "for_lines loads postprocess st1 ls = (st', x)" by simp
    moreover have "tracks postprocess st1"
      using Inr Cons.prems(2) by (rule loop_body_tracks)
    moreover have "each_extends_previous (yielded st1)"
      using Inr Cons.prems(2,3) by (rule loop_body_chain)
    ultimately show ?thesis by (rule Cons.IH)
  qed
qed

lemma read_stream_chain:
  "each_extends_previous (yielded (fst (read_stream loads postprocess r)))"
proof (cases "http_error r")
  case (Some e)
  then show ?thesis by (simp add: read_stream_def)
next
  case None
  obtain st x where fl: "for_lines loads postprocess \<lparr>partial_message = [], yielded = []\<rparr> (body_lines r) = (st, x)"
    by (cases "for_lines loads postprocess \<lparr>partial_message = [], yielded = []\<rparr> (body_lines r)")
  then have "each_extends_previous (yielded st)"
    by (rule for_lines_chain) (simp_all add: tracks_def)
  with None fl show ?thesis
    by (simp add: read_stream_def split: option.splits)
qed

section \<open>Lookups in a chunk\<close>




lemma loop_body_no_content:
  assumes "data_frame line" and "loads (payload line) = Inr (JObj kvs)"
    and "map_of kvs ''choices'' = Some (JArr (JObj c # cs))" and "map_of c ''delta'' = Some (JObj d)"
    and "map_of d ''content'' = None"
  shows "loop_body loads pp st (Text line) =
           Inr \<lparr>partial_message = partial_message st,
                yielded = yielded st @ [pp (partial_message st)]\<rparr>"
  using assms data_frame_nonempty[OF assms(1)]
  by (simp add: loop_body_def data_frame_def payload_def)

lemma loop_body_empty_choices:
  assumes "data_frame line" and "loads (payload line) = Inr (JObj kvs)"
    and "map_of kvs ''choices'' = Some (JArr [])"
  shows "loop_body loads pp st (Text line) = Inr st"
  using assms data_frame_nonempty[OF assms(1)]
  by (simp add: loop_body_def data_frame_def payload_def)

section \<open>The history loop\<close>

lemma history_messages_present:
  "list_all (\<lambda>(u, a). a \<noteq> None) history \<Longrightarrow>
   history_messages str history =
     concat (map (\<lambda>(u, a). [\<lparr>role = ''user'', content = str u\<rparr>,
                              \<lparr>role = ''assistant'', content = str (the a)\<rparr>]) history)"
  by (induction history) auto

lemma length_concat_pairs:
  "length (concat (map (\<lambda>(u, a). [f u, g a]) xs)) = length xs * 2"
  by (induction xs) auto

section \<open>The sentinel frame\<close>

text \<open>
  C1 (as the code has it). The line \<open>data: [DONE]\<close> yields nothing and is not decoded,
  but it does not end the loop: the function yields the same values as if the line were
  not in the stream, so the frames after it are processed like any other.
\<close>

theorem sentinel_skipped:
  "fn (serve (r\<lparr>body_lines := pre @ [Text ''data: [DONE]''] @ rest\<rparr>)) loads model_name prep pp api_key system_prompt message history =
   fn (serve (r\<lparr>body_lines := pre @ rest\<rparr>)) loads model_name prep pp api_key system_prompt message history"
  by (simp add: fn_serve read_stream_def for_lines_append loop_body_done split: prod.splits option.splits)

theorem sentinel_skipped_witness:
  \<open>fn (serve (\<lparr>http_error = None, body_lines = [], body_error = None\<rparr>
        \<lparr>body_lines := [Text ''data: {"choices":[{"delta":{"content":"a"}}]}''] @ [Text ''data: [DONE]''] @
                       [Text ''data: {"choices":[{"delta":{"content":"b"}}]}'']\<rparr>))
      json_loads ''m'' (preprocess id) postprocess ''key'' None ''hello'' [] = [''a'', ''ab'']\<close>
proof -
  have \<open>fn (serve (\<lparr>http_error = None, body_lines = [], body_error = None\<rparr>
        \<lparr>body_lines := [Text ''data: {"choices":[{"delta":{"content":"a"}}]}''] @
                       [Text ''data: {"choices":[{"delta":{"content":"b"}}]}'']\<rparr>))
      json_loads ''m'' (preprocess id) postprocess ''key'' None ''hello'' [] = [''a'', ''ab'']\<close>
    unfolding fn_serve by code_simp
  then show ?thesis
    by (simp only: sentinel_skipped)
qed

text \<open>
  C1 as stated fails: a frame that follows the sentinel is decoded and its text is
  yielded, where the stream that ends at the sentinel yields nothing.
\<close>

theorem sentinel_terminates_counterexample:
  \<open>fn (serve \<lparr>http_error = None,
               body_lines = [Text ''data: [DONE]'',
                             Text ''data: {"choices":[{"delta":{"content":"late"}}]}''],
               body_error = None\<rparr>)
      json_loads ''m'' (preprocess id) postprocess ''key'' None ''hello'' [] = [''late'']
   \<and> fn (serve \<lparr>http_error = None, body_lines = [Text ''data: [DONE]''], body_error = None\<rparr>)
      json_loads ''m'' (preprocess id) postprocess ''key'' None ''hello'' [] = []\<close>
  unfolding fn_serve by code_simp

section \<open>Cumulative snapshots\<close>

text \<open>
  C2. The frames \<open>data: {"choices":[{"delta":{"content":"Hi"}}]}\<close>,
  \<open>data: {"choices":[{"delta":{"content":" there"}}]}\<close> and \<open>data: [DONE]\<close> make the
  function yield \<open>Hi\<close>, then \<open>Hi there\<close>, and nothing more. In general, for valid frames
  carrying the deltas \<open>ds\<close> and followed by the sentinel, the function yields one value
  per frame, and the \<open>i\<close>-th value is the concatenation of the first \<open>i\<close> deltas (passed
  through \<open>postprocess\<close>): the whole message so far.
\<close>

theorem cumulative_snapshots:
  \<open>fn (serve \<lparr>http_error = None,
               body_lines = [Text ''data: {"choices":[{"delta":{"content":"Hi"}}]}'',
                             Text ''data: {"choices":[{"delta":{"content":" there"}}]}'',
                             Text ''data: [DONE]''],
               body_error = None\<rparr>)
      json_loads model_name prep postprocess api_key system_prompt message history
     = [''Hi'', ''Hi there'']
   \<and> (\<forall>loads pp (r::response) ls ds.
         list_all2 (valid_frame loads) ls ds \<and> http_error r = None \<and>
         body_lines r = map Text ls @ [Text ''data: [DONE]''] \<and> body_error r = None \<longrightarrow>
         length (fn (serve r) loads model_name prep pp api_key system_prompt message history) = length ds \<and>
         (\<forall>i < length ds.
            fn (serve r) loads model_name prep pp api_key system_prompt message history ! i
              = pp (concat (take (Suc i) ds))))\<close>
proof (intro conjI allI impI)
  show \<open>fn (serve \<lparr>http_error = None,
               body_lines = [Text ''data: {"choices":[{"delta":{"content":"Hi"}}]}'',
                             Text ''data: {"choices":[{"delta":{"content":" there"}}]}'',
                             Text ''data: [DONE]''],
               body_error = None\<rparr>)
      json_loads model_name prep postprocess api_key system_prompt message history
     = [''Hi'', ''Hi there'']\<close>
    by (subst fn_valid_frames[where ds = \<open>[''Hi'', '' there'']\<close>
          and ls = \<open>[''data: {"choices":[{"delta":{"content":"Hi"}}]}'', ''data: {"choices":[{"delta":{"content":" there"}}]}'']\<close>])
       (simp_all add: valid_Hi valid_there postprocess_def)
next
  fix loads pp and r :: response and ls ds i
  assume h: "list_all2 (valid_frame loads) ls ds \<and> http_error r = None \<and>
         body_lines r = map Text ls @ [Text ''data: [DONE]''] \<and> body_error r = None"
  then have eq: "fn (serve r) loads model_name prep pp api_key system_prompt message history =
           map pp (snapshots [] ds)"
    using fn_valid_frames[of loads ls ds r] by simp
  show "length (fn (serve r) loads model_name prep pp api_key system_prompt message history) = length ds"
    by (simp add: eq snapshots_length)
  assume "i < length ds"
  then show "fn (serve r) loads model_name prep pp api_key system_prompt message history ! i
              = pp (concat (take (Suc i) ds))"
    by (simp add: eq snapshots_length snapshots_nth)
qed

theorem cumulative_snapshots_witness:
  \<open>list_all2 (valid_frame json_loads)
      [''data: {"choices":[{"delta":{"content":"a"}}]}'', ''data:{"choices":[{"delta":{"content":"b"}, "index":0}]}'', ''data: {"choices":[{"delta":{"content":"c"}}]}'']
      [''a'', ''b'', ''c'']
   \<and> fn (serve \<lparr>http_error = None,
               body_lines = [Text ''data: {"choices":[{"delta":{"content":"a"}}]}'',
                             Text ''data:{"choices":[{"delta":{"content":"b"}, "index":0}]}'',
                             Text ''data: {"choices":[{"delta":{"content":"c"}}]}'',
                             Text ''data: [DONE]''],
               body_error = None\<rparr>)
      json_loads ''m'' (preprocess id) postprocess ''key'' None ''hello'' [] ! 2 = ''abc''\<close>
proof -
  have v: \<open>list_all2 (valid_frame json_loads)
      [''data: {"choices":[{"delta":{"content":"a"}}]}'', ''data:{"choices":[{"delta":{"content":"b"}, "index":0}]}'', ''data: {"choices":[{"delta":{"content":"c"}}]}'']
      [''a'', ''b'', ''c'']\<close>
    by code_simp
  note g = cumulative_snapshots[of "''m''" "preprocess id" "''key''" None "''hello''" "[]", THEN conjunct2, rule_format]
  from g[where loads = json_loads and ds = \<open>[''a'', ''b'', ''c'']\<close> and pp = postprocess
      and r = \<open>\<lparr>http_error = None,
               body_lines = [Text ''data: {"choices":[{"delta":{"content":"a"}}]}'',
                             Text ''data:{"choices":[{"delta":{"content":"b"}, "index":0}]}'',
                             Text ''data: {"choices":[{"delta":{"content":"c"}}]}'',
                             Text ''data: [DONE]''],
               body_error = None\<rparr>\<close>
      and ls = \<open>[''data: {"choices":[{"delta":{"content":"a"}}]}'', ''data:{"choices":[{"delta":{"content":"b"}, "index":0}]}'', ''data: {"choices":[{"delta":{"content":"c"}}]}'']\<close>] v
  show ?thesis
    by (simp add: postprocess_def)
qed

section \<open>Malformed frames\<close>

text \<open>
  C3. For a valid frame, a malformed frame and another valid frame, the function yields
  exactly two values: the first delta, and the first delta followed by the second. The
  malformed frame yields nothing and does not end the stream.
\<close>

theorem malformed_frame_skipped:
  assumes "valid_frame loads l1 d1" and "malformed_frame loads l2" and "valid_frame loads l3 d3"
    and "http_error r = None" and "body_lines r = [Text l1, Text l2, Text l3]" and "body_error r = None"
  shows "fn (serve r) loads model_name prep pp api_key system_prompt message history = [pp d1, pp (d1 @ d3)]"
  using assms
  by (simp add: fn_serve read_stream_def loop_body_valid loop_body_malformed)

theorem malformed_frame_skipped_witness:
  \<open>valid_frame json_loads ''data: {"choices":[{"delta":{"content":"Hi"}}]}'' ''Hi'' \<and>
   malformed_frame json_loads ''data: {"choices":[{"delta'' \<and>
   valid_frame json_loads ''data: {"choices":[{"delta":{"content":" there"}}]}'' '' there'' \<and>
   fn (serve \<lparr>http_error = None,
               body_lines = [Text ''data: {"choices":[{"delta":{"content":"Hi"}}]}'',
                             Text ''data: {"choices":[{"delta'',
                             Text ''data: {"choices":[{"delta":{"content":" there"}}]}''],
               body_error = None\<rparr>)
      json_loads ''m'' (preprocess id) postprocess ''key'' None ''hello'' [] = [''Hi'', ''Hi there'']\<close>
proof -
  have m: \<open>malformed_frame json_loads ''data: {"choices":[{"delta''\<close>
    by code_simp
  from malformed_frame_skipped[OF valid_Hi m valid_there, where pp = postprocess
      and r = \<open>\<lparr>http_error = None,
               body_lines = [Text ''data: {"choices":[{"delta":{"content":"Hi"}}]}'',
                             Text ''data: {"choices":[{"delta'',
                             Text ''data: {"choices":[{"delta":{"content":" there"}}]}''],
               body_error = None\<rparr>\<close>] valid_Hi m valid_there
  show ?thesis
    by (simp add: postprocess_def)
qed

section \<open>Transport failures\<close>

text \<open>
  C4. A transport failure inside the streaming call is caught and reported as one last
  value \<open>Error: <description>\<close>; nothing is yielded after it. When the request itself
  fails (no connection), or the status is not a success (\<open>raise_for_status\<close> raises),
  that value is the only one. When the connection breaks after some lines were read, the
  values yielded for those lines come first and the error value ends the sequence. The
  result of \<open>fn\<close> is the list of the values yielded: the failure does not leave the call
  as an exception.
\<close>

theorem transport_failure_reported:
  "((\<forall>req. post req = Inl e) \<longrightarrow>
      fn post loads model_name prep pp api_key system_prompt message history = [''Error: '' @ str_exn e])
   \<and> (http_error r = Some e \<longrightarrow>
      fn (serve r) loads model_name prep pp api_key system_prompt message history = [''Error: '' @ str_exn e])
   \<and> (http_error r = None \<and>
      for_lines loads pp \<lparr>partial_message = [], yielded = []\<rparr> (body_lines r) = (st, None) \<and>
      body_error r = Some e \<longrightarrow>
      fn (serve r) loads model_name prep pp api_key system_prompt message history
        = yielded st @ [''Error: '' @ str_exn e])"
  by (simp add: fn_def serve_def read_stream_def error_message_def)

theorem transport_failure_reported_witness:
  \<open>fn (\<lambda>req. Inl (Exn RequestException ''connection refused''))
      json_loads ''m'' (preprocess id) postprocess ''key'' None ''hello'' [] = [''Error: connection refused'']
   \<and> fn (serve \<lparr>http_error = Some (Exn RequestException ''401 Client Error''), body_lines = [], body_error = None\<rparr>)
      json_loads ''m'' (preprocess id) postprocess ''key'' None ''hello'' [] = [''Error: 401 Client Error'']
   \<and> for_lines json_loads postprocess \<lparr>partial_message = [], yielded = []\<rparr>
        [Text ''data: {"choices":[{"delta":{"content":"Hi"}}]}'']
        = (\<lparr>partial_message = ''Hi'', yielded = [''Hi'']\<rparr>, None)
   \<and> fn (serve \<lparr>http_error = None,
                 body_lines = [Text ''data: {"choices":[{"delta":{"content":"Hi"}}]}''],
                 body_error = Some (Exn RequestException ''Connection broken'')\<rparr>)
      json_loads ''m'' (preprocess id) postprocess ''key'' None ''hello'' [] = [''Hi'', ''Error: Connection broken'']\<close>
proof -
  have fl: \<open>for_lines json_loads postprocess \<lparr>partial_message = [], yielded = []\<rparr>
        [Text ''data: {"choices":[{"delta":{"content":"Hi"}}]}'']
        = (\<lparr>partial_message = ''Hi'', yielded = [''Hi'']\<rparr>, None)\<close>
    by code_simp
  note a = transport_failure_reported[where post = "\<lambda>req. Inl (Exn RequestException ''connection refused'')"
      and e = "Exn RequestException ''connection refused''" and loads = json_loads and model_name = "''m''" and prep = "preprocess id" and pp = postprocess
      and api_key = "''key''" and system_prompt = None and message = "''hello''" and history = "[]", THEN conjunct1, rule_format]
  note b = transport_failure_reported[where e = "Exn RequestException ''401 Client Error''" and loads = json_loads and model_name = "''m''" and prep = "preprocess id" and pp = postprocess
      and api_key = "''key''" and system_prompt = None and message = "''hello''" and history = "[]"
      and r = "\<lparr>http_error = Some (Exn RequestException ''401 Client Error''), body_lines = [], body_error = None\<rparr>",
      THEN conjunct2, THEN conjunct1, rule_format]
  note c = transport_failure_reported[where e = "Exn RequestException ''Connection broken''"
      and loads = json_loads and pp = postprocess and model_name = "''m''" and prep = "preprocess id"
      and api_key = "''key''" and system_prompt = None and message = "''hello''" and history = "[]"
      and st = "\<lparr>partial_message = ''Hi'', yielded = [''Hi'']\<rparr>"
      and r = \<open>\<lparr>http_error = None,
                 body_lines = [Text ''data: {"choices":[{"delta":{"content":"Hi"}}]}''],
                 body_error = Some (Exn RequestException ''Connection broken'')\<rparr>\<close>,
      THEN conjunct2, THEN conjunct2, rule_format]
  show ?thesis
    using a b c fl by simp
qed

section \<open>Monotone snapshots\<close>

text \<open>
  C5 (as the code has it). With the identity \<open>postprocess\<close> of the chat pipeline, the
  values of one call are accumulator snapshots, each having the one before it as a
  prefix, followed by at most one value \<open>Error: <description>\<close> when an exception ends
  the call; that last value need not extend the snapshot before it.
\<close>

theorem snapshots_extend:
  "\<exists>snaps. each_extends_previous snaps \<and>
     (fn post loads model_name prep postprocess api_key system_prompt message history = snaps \<or>
      (\<exists>e. fn post loads model_name prep postprocess api_key system_prompt message history
             = snaps @ [''Error: '' @ str_exn e]))"
proof -
  let ?req = "\<lparr>req_url = NOVITA_API_BASE_URL @ ''/chat/completions'',
               req_headers = [(''Content-Type'', ''application/json''),
                              (''Authorization'', ''Bearer '' @ api_key)],
               req_model = model_name,
               req_messages = messages (prep message history system_prompt),
               req_stream = True,
               req_max_tokens = 1000\<rparr>"
  show ?thesis
  proof (cases "post ?req")
    case (Inl e)
    then have "fn post loads model_name prep postprocess api_key system_prompt message history
                 = [] @ [''Error: '' @ str_exn e]"
      by (simp add: fn_def error_message_def)
    moreover have "each_extends_previous []" by simp
    ultimately show ?thesis by blast
  next
    case (Inr r)
    obtain st x where rs: "read_stream loads postprocess r = (st, x)"
      by (cases "read_stream loads postprocess r")
    have ch: "each_extends_previous (yielded st)"
      using read_stream_chain[of loads r] rs by simp
    show ?thesis
    proof (cases x)
      case None
      with Inr rs have "fn post loads model_name prep postprocess api_key system_prompt message history = yielded st"
        by (simp add: fn_def)
      with ch show ?thesis by blast
    next
      case (Some e)
      with Inr rs have "fn post loads model_name prep postprocess api_key system_prompt message history
                          = yielded st @ [''Error: '' @ str_exn e]"
        by (simp add: fn_def error_message_def)
      with ch show ?thesis by blast
    qed
  qed
qed

theorem snapshots_extend_witness:
  \<open>\<exists>snaps. each_extends_previous snaps \<and>
     (fn (serve \<lparr>http_error = None,
                 body_lines = [Text ''data: {"choices":[{"delta":{"content":"Hi"}}]}'', Text ''data: {}''],
                 body_error = None\<rparr>)
         json_loads ''m'' (preprocess id) postprocess ''key'' None ''hello'' [] = snaps \<or>
      (\<exists>e. fn (serve \<lparr>http_error = None,
                 body_lines = [Text ''data: {"choices":[{"delta":{"content":"Hi"}}]}'', Text ''data: {}''],
                 body_error = None\<rparr>)
         json_loads ''m'' (preprocess id) postprocess ''key'' None ''hello'' []
             = snaps @ [''Error: '' @ str_exn e]))\<close>
  by (rule snapshots_extend)

text \<open>
  C5 as stated fails: after the snapshot \<open>Hi\<close>, a frame without the key \<open>choices\<close>
  makes the call yield \<open>Error: 'choices'\<close>, of which \<open>Hi\<close> is no prefix.
\<close>

theorem every_value_extends_counterexample:
  \<open>\<not> each_extends_previous
       (fn (serve \<lparr>http_error = None,
                   body_lines = [Text ''data: {"choices":[{"delta":{"content":"Hi"}}]}'', Text ''data: {}''],
                   body_error = None\<rparr>)
           json_loads ''m'' (preprocess id) postprocess ''key'' None ''hello'' [])\<close>
  unfolding fn_serve by code_simp

section \<open>The message list\<close>

text \<open>
  C6. For a history whose every turn has its assistant side, the list \<open>preprocess\<close>
  builds is: the system message if a system prompt is given (tested as Python does:
  neither \<open>None\<close> nor empty), then for each turn in order its user message and its
  assistant message, then the current user message. Its length is \<open>N * 2 + 1\<close> without
  a system prompt and \<open>N * 2 + 2\<close> with one, \<open>N\<close> being the number of turns.
\<close>

theorem message_list_shape:
  assumes "list_all (\<lambda>(u, a). a \<noteq> None) history"
  shows "messages (preprocess str message history system_prompt) =
           (if py_true system_prompt then [\<lparr>role = ''system'', content = the system_prompt\<rparr>] else []) @
           concat (map (\<lambda>(u, a). [\<lparr>role = ''user'', content = str u\<rparr>,
                                    \<lparr>role = ''assistant'', content = str (the a)\<rparr>]) history) @
           [\<lparr>role = ''user'', content = str message\<rparr>]
         \<and> (system_prompt = None \<longrightarrow>
              length (messages (preprocess str message history system_prompt)) = length history * 2 + 1)
         \<and> (\<forall>s. system_prompt = Some s \<and> s \<noteq> [] \<longrightarrow>
              length (messages (preprocess str message history system_prompt)) = length history * 2 + 2)"
proof -
  have eq: "messages (preprocess str message history system_prompt) =
           (if py_true system_prompt then [\<lparr>role = ''system'', content = the system_prompt\<rparr>] else []) @
           concat (map (\<lambda>(u, a). [\<lparr>role = ''user'', content = str u\<rparr>,
                                    \<lparr>role = ''assistant'', content = str (the a)\<rparr>]) history) @
           [\<lparr>role = ''user'', content = str message\<rparr>]"
    using assms by (simp add: preprocess_def history_messages_present)
  have len: "length (concat (map (\<lambda>(u, a). [\<lparr>role = ''user'', content = str u\<rparr>,
                                    \<lparr>role = ''assistant'', content = str (the a)\<rparr>]) history)) = length history * 2"
    by (rule length_concat_pairs)
  show ?thesis
    by (simp only: eq) (simp add: len py_true_def)
qed

theorem message_list_shape_witness:
  "list_all (\<lambda>(u, a). a \<noteq> None) [(''q1'', Some ''a1''), (''q2'', Some ''a2'')]
   \<and> messages (preprocess id ''q3'' [(''q1'', Some ''a1''), (''q2'', Some ''a2'')] (Some ''be brief'')) =
       [\<lparr>role = ''system'', content = ''be brief''\<rparr>,
        \<lparr>role = ''user'', content = ''q1''\<rparr>, \<lparr>role = ''assistant'', content = ''a1''\<rparr>,
        \<lparr>role = ''user'', content = ''q2''\<rparr>, \<lparr>role = ''assistant'', content = ''a2''\<rparr>,
        \<lparr>role = ''user'', content = ''q3''\<rparr>]
   \<and> length (messages (preprocess id ''q3'' [(''q1'', Some ''a1''), (''q2'', Some ''a2'')] None)) = 5
   \<and> length (messages (preprocess id ''q3'' [(''q1'', Some ''a1''), (''q2'', Some ''a2'')] (Some ''be brief''))) = 6"
proof -
  have h: "list_all (\<lambda>(u, a). a \<noteq> None) [(''q1'', Some ''a1''), (''q2'', Some ''a2'')]"
    by simp
  from message_list_shape[OF h, of id "''q3''" "Some ''be brief''"]
       message_list_shape[OF h, of id "''q3''" None] h
  show ?thesis
    by (simp add: py_true_def)
qed

section \<open>The credential\<close>

text \<open>
  C7. Without a token and without the variable \<open>NOVITA_API_KEY\<close>, \<open>registry\<close> raises
  the \<open>ValueError\<close> of the missing key, whatever the server is: no request is involved.
  With a (non-empty) explicit token, the interface is built on that token, whatever the
  environment holds.
\<close>

theorem credential_resolution:
  "(token = None \<and> environ ''NOVITA_API_KEY'' = None \<longrightarrow>
      registry post loads str environ name token coder =
        Inl (Exn ValueError ''NOVITA_API_KEY environment variable is not set.''))
   \<and> (\<forall>t. token = Some t \<and> t \<noteq> [] \<longrightarrow>
      registry post loads str environ name token coder =
        Inr (fn post loads name (preprocess str) postprocess t
               (if coder then SYSTEM_PROMPTS ''coder'' else SYSTEM_PROMPTS ''default'')))"
  by (simp add: registry_def py_true_def get_pipeline_def get_interface_args_def)

theorem credential_resolution_witness:
  "registry (serve \<lparr>http_error = None, body_lines = [], body_error = None\<rparr>) json_loads id
       Map.empty ''m'' None False =
        Inl (Exn ValueError ''NOVITA_API_KEY environment variable is not set.'')
   \<and> registry (\<lambda>req. Inl (Exn RequestException (snd (req_headers req ! 1)))) json_loads id
        (Map.empty(''NOVITA_API_KEY'' \<mapsto> ''from-env'')) ''m'' (Some ''explicit'') True =
        Inr (fn (\<lambda>req. Inl (Exn RequestException (snd (req_headers req ! 1)))) json_loads ''m'' (preprocess id) postprocess ''explicit'' (SYSTEM_PROMPTS ''coder''))
   \<and> fn (\<lambda>req. Inl (Exn RequestException (snd (req_headers req ! 1)))) json_loads ''m'' (preprocess id) postprocess ''explicit'' (SYSTEM_PROMPTS ''coder'') ''hello'' []
        = [''Error: Bearer explicit'']"
  using credential_resolution[of None Map.empty "serve \<lparr>http_error = None, body_lines = [], body_error = None\<rparr>" json_loads id "''m''" False]
        credential_resolution[of "Some ''explicit''" "Map.empty(''NOVITA_API_KEY'' \<mapsto> ''from-env'')"
           "\<lambda>req. Inl (Exn RequestException (snd (req_headers req ! 1)))" json_loads id "''m''" True]
  by (simp add: fn_def error_message_def)

section \<open>Attachments\<close>

text \<open>
  C8. For a structured message with attachments, \<open>handle_user_msg\<close> looks at the last
  path only. Its extension is what \<open>os.path.splitext\<close> returns, without dots at the
  ends. If the extension in lower case is one of \<open>png\<close>, \<open>jpg\<close>, \<open>jpeg\<close>, \<open>gif\<close> and the
  file can be read, the result is the text block followed by an image block whose URL is
  \<open>data:image/<extension>;base64,<the file in base64>\<close>. For any other extension the
  call raises \<open>NotImplementedError\<close> naming the extension; it returns no content. The
  function has no access to the network: its result depends on the message and the file
  store alone.
\<close>

theorem attachment_kinds:
  assumes "msg_files m = Some fs" and "fs \<noteq> []"
    and "ext = strip_dots (snd (splitext (last fs)))"
  shows "(lower ext \<in> {''png'', ''jpg'', ''jpeg'', ''gif''} \<longrightarrow>
            (\<forall>data. read_file (last fs) = Inr data \<longrightarrow>
               handle_user_msg read_file (MsgDict m) =
                 Inr (Blocks [TextBlock (msg_text m),
                              ImageUrlBlock (''data:image/'' @ ext @ '';base64,'' @ b64encode data)])))
       \<and> (lower ext \<notin> {''png'', ''jpg'', ''jpeg'', ''gif''} \<longrightarrow>
            handle_user_msg read_file (MsgDict m) =
              Inl (Exn NotImplementedError (''Not supported file type '' @ ext)))
       \<and> (\<forall>fs'. fs' \<noteq> [] \<and> last fs' = last fs \<longrightarrow>
            handle_user_msg read_file (MsgDict (m\<lparr>msg_files := Some fs'\<rparr>)) =
            handle_user_msg read_file (MsgDict m))"
proof -
  have same: "handle_user_msg read_file (MsgDict (m\<lparr>msg_files := Some fs'\<rparr>)) =
              handle_user_msg read_file (MsgDict m)"
    if "fs' \<noteq> []" and "last fs' = last fs" for fs'
    using that assms(1,2) by (simp add: handle_user_msg_def Let_def cong: sum.case_cong)
  have kinds:
    "(lower ext \<in> {''png'', ''jpg'', ''jpeg'', ''gif''} \<longrightarrow>
        (\<forall>data. read_file (last fs) = Inr data \<longrightarrow>
           handle_user_msg read_file (MsgDict m) =
             Inr (Blocks [TextBlock (msg_text m),
                          ImageUrlBlock (''data:image/'' @ ext @ '';base64,'' @ b64encode data)])))
     \<and> (lower ext \<notin> {''png'', ''jpg'', ''jpeg'', ''gif''} \<longrightarrow>
        handle_user_msg read_file (MsgDict m) =
          Inl (Exn NotImplementedError (''Not supported file type '' @ ext)))"
    using assms by (simp add: handle_user_msg_def get_image_base64_def Let_def)
  show ?thesis
    using kinds same by blast
qed

theorem attachment_kinds_witness:
  "handle_user_msg disk (MsgDict \<lparr>msg_text = ''what is this?'', msg_files = Some [''/tmp/old.bmp'', ''/tmp/cat.PNG'']\<rparr>)
     = Inr (Blocks [TextBlock ''what is this?'', ImageUrlBlock ''data:image/PNG;base64,TWFu''])
   \<and> handle_user_msg disk (MsgDict \<lparr>msg_text = ''what is this?'', msg_files = Some [''/tmp/cat.PNG'', ''/tmp/old.bmp'']\<rparr>)
     = Inl (Exn NotImplementedError ''Not supported file type bmp'')"
proof -
  have e1: "strip_dots (snd (splitext (last [''/tmp/old.bmp'', ''/tmp/cat.PNG'']))) = ''PNG''"
    by code_simp
  have e2: "strip_dots (snd (splitext (last [''/tmp/cat.PNG'', ''/tmp/old.bmp'']))) = ''bmp''"
    by code_simp
  have "lower ''PNG'' = ''png''"
    by code_simp
  then have l1: "lower ''PNG'' \<in> {''png'', ''jpg'', ''jpeg'', ''gif''}"
    by simp
  have "lower ''bmp'' = ''bmp''"
    by code_simp
  then have l2: "lower ''bmp'' \<notin> {''png'', ''jpg'', ''jpeg'', ''gif''}"
    by simp
  have d: "disk (last [''/tmp/old.bmp'', ''/tmp/cat.PNG'']) = Inr ''Man''"
    by (simp add: disk_def)
  have b: "b64encode ''Man'' = ''TWFu''"
    by (simp add: b64_char_def b64_alphabet_def)
  note a1 = attachment_kinds[where m = "\<lparr>msg_text = ''what is this?'', msg_files = Some [''/tmp/old.bmp'', ''/tmp/cat.PNG'']\<rparr>"
      and fs = "[''/tmp/old.bmp'', ''/tmp/cat.PNG'']" and ext = "''PNG''" and read_file = disk,
      THEN conjunct1, rule_format, OF _ _ e1[symmetric] l1 d]
  note a2 = attachment_kinds[where m = "\<lparr>msg_text = ''what is this?'', msg_files = Some [''/tmp/cat.PNG'', ''/tmp/old.bmp'']\<rparr>"
      and fs = "[''/tmp/cat.PNG'', ''/tmp/old.bmp'']" and ext = "''bmp''" and read_file = disk,
      THEN conjunct2, THEN conjunct1, rule_format, OF _ _ e2[symmetric] l2]
  show ?thesis
    using a1 a2 by (simp only: b append.simps) simp
qed

section \<open>Lookup errors\<close>



section \<open>Frames without text\<close>

text \<open>
  C10. A data frame whose first choice has a delta without the key \<open>content\<close> appends
  the empty text and still yields the accumulator: the value equals the one yielded
  before it, if there is one. A data frame whose list of choices is empty yields nothing.
\<close>

theorem empty_delta_repeats_snapshot:
  assumes "http_error r = None" and "body_lines r = pre @ [Text line]" and "body_error r = None"
    and "for_lines loads pp \<lparr>partial_message = [], yielded = []\<rparr> pre = (st, None)"
    and "data_frame line" and "loads (payload line) = Inr (JObj kvs)"
  shows "(\<forall>c cs d. map_of kvs ''choices'' = Some (JArr (JObj c # cs)) \<and>
                   map_of c ''delta'' = Some (JObj d) \<and> map_of d ''content'' = None \<longrightarrow>
            fn (serve r) loads model_name prep pp api_key system_prompt message history
              = yielded st @ [pp (partial_message st)] \<and>
            (yielded st \<noteq> [] \<longrightarrow> pp (partial_message st) = last (yielded st)))
       \<and> (map_of kvs ''choices'' = Some (JArr []) \<longrightarrow>
            fn (serve r) loads model_name prep pp api_key system_prompt message history = yielded st)"
proof -
  from assms(2) have bl: "body_lines r = pre @ Text line # []" by simp
  note f = fn_after_prefix[OF assms(1) bl assms(4)]
  have "tracks pp st"
    using assms(4) by (rule for_lines_tracks) (simp add: tracks_def)
  then have tr: "yielded st \<noteq> [] \<longrightarrow> pp (partial_message st) = last (yielded st)"
    by (simp add: tracks_def)
  show ?thesis
    using tr assms(3)
    by (auto simp: f loop_body_no_content[where loads = loads, OF assms(5,6)] loop_body_empty_choices[where loads = loads, OF assms(5,6)])
qed

theorem empty_delta_repeats_snapshot_witness:
  \<open>fn (serve \<lparr>http_error = None,
               body_lines = [Text ''data: {"choices":[{"delta":{"content":"Hi"}}]}''] @
                            [Text ''data: {"choices":[{"delta":{"role":"assistant"}}]}''],
               body_error = None\<rparr>)
      json_loads ''m'' (preprocess id) postprocess ''key'' None ''hello'' []
     = [''Hi'', ''Hi'']
   \<and> fn (serve \<lparr>http_error = None,
               body_lines = [Text ''data: {"choices":[{"delta":{"content":"Hi"}}]}''] @
                            [Text ''data: {"choices":[]}''],
               body_error = None\<rparr>)
      json_loads ''m'' (preprocess id) postprocess ''key'' None ''hello'' []
     = [''Hi'']\<close>
proof -
  have d1: \<open>data_frame ''data: {"choices":[{"delta":{"role":"assistant"}}]}''\<close>
    by code_simp
  have p1: \<open>json_loads (payload ''data: {"choices":[{"delta":{"role":"assistant"}}]}'')
              = Inr (JObj [(''choices'', JArr [JObj [(''delta'', JObj [(''role'', JStr ''assistant'')])]])])\<close>
    by code_simp
  have d2: \<open>data_frame ''data: {"choices":[]}''\<close>
    by code_simp
  have p2: \<open>json_loads (payload ''data: {"choices":[]}'') = Inr (JObj [(''choices'', JArr [])])\<close>
    by code_simp
  note a = empty_delta_repeats_snapshot[where loads = json_loads and pp = postprocess
      and model_name = "''m''" and prep = "preprocess id" and api_key = "''key''"
      and system_prompt = None and message = "''hello''" and history = "[]",
      OF _ _ _ pre_Hi d1 p1, THEN conjunct1,
      THEN spec[of _ "[(''delta'', JObj [(''role'', JStr ''assistant'')])]"],
      THEN spec[of _ "[]"], THEN spec[of _ "[(''role'', JStr ''assistant'')]"],
      THEN mp, THEN conjunct1]
  note b = empty_delta_repeats_snapshot[where loads = json_loads and pp = postprocess
      and model_name = "''m''" and prep = "preprocess id" and api_key = "''key''"
      and system_prompt = None and message = "''hello''" and history = "[]",
      OF _ _ _ pre_Hi d2 p2, THEN conjunct2, rule_format]
  have \<open>fn (serve \<lparr>http_error = None,
               body_lines = [Text ''data: {"choices":[{"delta":{"content":"Hi"}}]}''] @
                            [Text ''data: {"choices":[{"delta":{"role":"assistant"}}]}''],
               body_error = None\<rparr>)
      json_loads ''m'' (preprocess id) postprocess ''key'' None ''hello'' []
     = [''Hi'', ''Hi'']\<close>
    by (subst a) (simp_all add: postprocess_def)
  moreover have \<open>fn (serve \<lparr>http_error = None,
               body_lines = [Text ''data: {"choices":[{"delta":{"content":"Hi"}}]}''] @
                            [Text ''data: {"choices":[]}''],
               body_error = None\<rparr>)
      json_loads ''m'' (preprocess id) postprocess ''key'' None ''hello'' []
     = [''Hi'']\<close>
    by (subst b) simp_all
  ultimately show ?thesis by blast
qed

end
